theory Spec2Isabelle
  imports Main "HOL-Library.Word" "HOL-Library.AList" "HOL-Library.Log_Nat"
begin

section \<open>Python values and exceptions\<close>

text \<open>
  The exceptions the modelled code can raise. \<open>KeyError\<close> carries the missing key.
  \<open>DecodeError\<close> and \<open>ValidationError\<close> are msgspec's; \<open>TransportError\<close> stands for
  whatever the HTTP client raises (\<open>raise_for_status\<close> included).
\<close>

datatype error =
    KeyError string
  | ValueError
  | TypeError
  | OverflowError
  | DecodeError
  | ValidationError
  | TransportError

text \<open>The names the specification gives to these failures.\<close>

abbreviation (input) UnknownColumnType :: "string \<Rightarrow> error" where
  "UnknownColumnType t \<equiv> KeyError t"



text \<open>
  \<open>datetime.datetime\<close>: the calendar fields and \<open>tzinfo\<close>. \<open>utcoffset = None\<close> is a naive
  value; \<open>Some u\<close> is an aware value whose offset from UTC is \<open>u\<close> microseconds
  (\<open>Some 0\<close> is \<open>timezone.utc\<close>).
\<close>

record datetime =
  year :: nat
  month :: nat
  day :: nat
  hour :: nat
  minute :: nat
  second :: nat
  microsecond :: nat
  utcoffset :: "int option"

text \<open>
  A Python float is its IEEE-754 binary64 bit pattern. A Python \<open>str\<close> is a \<open>string\<close>:
  code points below 256 only. A \<open>dict\<close> is an association list in insertion order.
\<close>

type_synonym pyfloat = "64 word"

datatype pyobj =
    PNone
  | PBool bool
  | PInt int
  | PFloat pyfloat
  | PStr string
  | PList "pyobj list"
  | PDict "(string \<times> pyobj) list"
  | PDatetime datetime

type_synonym pydict = "(string \<times> pyobj) list"

text \<open>
  \<open>d[k] = v\<close> on a dict: an existing key keeps its position and takes the new value,
  a new key goes last.
\<close>

definition dict_setitem :: "pydict \<Rightarrow> string \<Rightarrow> pyobj \<Rightarrow> pydict" where
  "dict_setitem d k v = AList.update k v d"

definition dict_get :: "pydict \<Rightarrow> string \<Rightarrow> pyobj option" where
  "dict_get d k = map_of d k"

text \<open>
  What this development takes from the Python runtime without modelling it: the text of
  a float, list, dict or datetime (\<open>str(x)\<close>), the float a text denotes
  (\<open>float(s)\<close>, \<open>None\<close> when it raises \<open>ValueError\<close>), and
  \<open>datetime.fromisoformat\<close> on the texts that \<open>isoformat_common\<close> below does not cover.
\<close>

record pylib =
  str_other :: "pyobj \<Rightarrow> string"
  float_of_str :: "string \<Rightarrow> pyfloat option"
  fromisoformat_other :: "string \<Rightarrow> error + datetime"

section \<open>The builtins named in \<open>TYPE_MAP\<close>\<close>

subsection \<open>\<open>str\<close>\<close>

definition digit_char :: "nat \<Rightarrow> char" where
  "digit_char d = ''0123456789'' ! d"

fun digits10 :: "nat \<Rightarrow> string" where
  "digits10 n = (if n < 10 then [digit_char n] else digits10 (n div 10) @ [digit_char (n mod 10)])"

declare digits10.simps [simp del]

definition str_int :: "int \<Rightarrow> string" where
  "str_int n = (if n < 0 then CHR ''-'' # digits10 (nat (- n)) else digits10 (nat n))"

text \<open>CPython refuses to print an \<open>int\<close> of more than 4300 digits.\<close>

definition int_max_str_digits :: nat where
  "int_max_str_digits = 4300"

definition py_str :: "pylib \<Rightarrow> pyobj \<Rightarrow> error + pyobj" where
  "py_str L v =
     (case v of
        PStr s \<Rightarrow> Inr (PStr s)
      | PNone \<Rightarrow> Inr (PStr ''None'')
      | PBool b \<Rightarrow> Inr (PStr (if b then ''True'' else ''False''))
      | PInt n \<Rightarrow>
          (if length (digits10 (nat \<bar>n\<bar>)) > int_max_str_digits then Inl ValueError
           else Inr (PStr (str_int n)))
      | _ \<Rightarrow> Inr (PStr (str_other L v)))"

subsection \<open>\<open>bool\<close>\<close>

text \<open>A float is false when it is \<open>0.0\<close> or \<open>-0.0\<close>: all bits but the sign are clear.\<close>

definition float_is_zero :: "pyfloat \<Rightarrow> bool" where
  "float_is_zero w = (take_bit 63 w = 0)"

definition py_bool :: "pyobj \<Rightarrow> error + pyobj" where
  "py_bool v =
     Inr (PBool
       (case v of
          PNone \<Rightarrow> False
        | PBool b \<Rightarrow> b
        | PInt n \<Rightarrow> n \<noteq> 0
        | PFloat w \<Rightarrow> \<not> float_is_zero w
        | PStr s \<Rightarrow> s \<noteq> []
        | PList xs \<Rightarrow> xs \<noteq> []
        | PDict kvs \<Rightarrow> kvs \<noteq> []
        | PDatetime d \<Rightarrow> True))"

subsection \<open>\<open>int\<close>\<close>

text \<open>
  \<open>int(x)\<close> of a float truncates towards zero; infinity raises \<open>OverflowError\<close>, NaN
  raises \<open>ValueError\<close>.
\<close>

definition float_trunc :: "pyfloat \<Rightarrow> error + int" where
  "float_trunc w =
     (let e = unat (take_bit 11 (drop_bit 52 w));
          m = unat (take_bit 52 w)
      in if e = 2047 then (if m = 0 then Inl OverflowError else Inl ValueError)
         else
           let M = (if e = 0 then m else m + 2 ^ 52);
               mag = (if 1075 \<le> e then M * 2 ^ (e - 1075) else M div 2 ^ (1075 - max e 1))
           in Inr (if bit w 63 then - int mag else int mag))"

text \<open>
  \<open>int(s)\<close> of a text, base 10: surrounding whitespace is dropped, one sign is allowed,
  digits may be separated by single underscores, and more than 4300 digits are refused.
\<close>

definition int_space :: "char \<Rightarrow> bool" where
  "int_space c = (of_char c \<in> {9, 10, 11, 12, 13, 32, 133, 160 :: nat})"

definition is_ascii_digit :: "char \<Rightarrow> bool" where
  "is_ascii_digit c = (48 \<le> (of_char c :: nat) \<and> (of_char c :: nat) \<le> 57)"

definition digit_value :: "char \<Rightarrow> nat" where
  "digit_value c = of_char c - 48"

fun digit_groups :: "string \<Rightarrow> bool" where
  "digit_groups [] = False"
| "digit_groups [c] = is_ascii_digit c"
| "digit_groups (c # d # rest) =
     (if is_ascii_digit c
      then (if d = CHR ''_'' then digit_groups rest else digit_groups (d # rest))
      else False)"

definition digits_value :: "string \<Rightarrow> nat" where
  "digits_value ds = foldl (\<lambda>a c. 10 * a + digit_value c) 0 ds"

definition strip_space :: "string \<Rightarrow> string" where
  "strip_space s = rev (dropWhile int_space (rev (dropWhile int_space s)))"

definition int_of_str :: "string \<Rightarrow> error + int" where
  "int_of_str s =
     (let t = strip_space s;
          neg = (t \<noteq> [] \<and> hd t = CHR ''-'');
          body = (if t \<noteq> [] \<and> (hd t = CHR ''-'' \<or> hd t = CHR ''+'') then tl t else t);
          ds = filter is_ascii_digit body
      in if \<not> digit_groups body then Inl ValueError
         else if length ds > int_max_str_digits then Inl ValueError
         else Inr (if neg then - int (digits_value ds) else int (digits_value ds)))"

definition py_int :: "pyobj \<Rightarrow> error + pyobj" where
  "py_int v =
     (case v of
        PInt n \<Rightarrow> Inr (PInt n)
      | PBool b \<Rightarrow> Inr (PInt (if b then 1 else 0))
      | PFloat w \<Rightarrow> (case float_trunc w of Inl e \<Rightarrow> Inl e | Inr n \<Rightarrow> Inr (PInt n))
      | PStr s \<Rightarrow> (case int_of_str s of Inl e \<Rightarrow> Inl e | Inr n \<Rightarrow> Inr (PInt n))
      | _ \<Rightarrow> Inl TypeError)"

subsection \<open>\<open>float\<close>\<close>

text \<open>
  \<open>float(n)\<close> of an int: the nearest binary64 value, ties to even; \<open>OverflowError\<close>
  when that would be \<open>2 ^ 1024\<close> or more.
\<close>

definition float_of_int :: "int \<Rightarrow> error + pyfloat" where
  "float_of_int n =
     (if n = 0 then Inr 0
      else
        let a = nat \<bar>n\<bar>;
            bl = nat (bitlen (int a));
            sh = bl - 53;
            q0 = a div 2 ^ sh;
            r = a mod 2 ^ sh;
            up = (53 < bl \<and> (2 * r > 2 ^ sh \<or> (2 * r = 2 ^ sh \<and> odd q0)));
            q1 = (if bl \<le> 53 then a * 2 ^ (53 - bl) else if up then q0 + 1 else q0);
            carry = (q1 = 2 ^ 53);
            frac = (if carry then 0 else q1 - 2 ^ 52);
            ex = (if carry then bl else bl - 1)
        in if ex > 1023 then Inl OverflowError
           else Inr ((if n < 0 then push_bit 63 1 else 0)
                     + push_bit 52 (word_of_nat (ex + 1023)) + word_of_nat frac))"

definition py_float :: "pylib \<Rightarrow> pyobj \<Rightarrow> error + pyobj" where
  "py_float L v =
     (case v of
        PFloat w \<Rightarrow> Inr (PFloat w)
      | PInt n \<Rightarrow> (case float_of_int n of Inl e \<Rightarrow> Inl e | Inr w \<Rightarrow> Inr (PFloat w))
      | PBool b \<Rightarrow>
          (case float_of_int (if b then 1 else 0) of Inl e \<Rightarrow> Inl e | Inr w \<Rightarrow> Inr (PFloat w))
      | PStr s \<Rightarrow> (case float_of_str L s of None \<Rightarrow> Inl ValueError | Some w \<Rightarrow> Inr (PFloat w))
      | _ \<Rightarrow> Inl TypeError)"

subsection \<open>\<open>datetime.datetime.fromisoformat\<close>\<close>

text \<open>
  The texts covered here have the shape
  \<open>YYYY-MM-DD\<close>, optionally followed by \<open>T\<close> or a blank and \<open>HH:MM:SS\<close>, then
  optionally \<open>.\<close> and one to six digits, then optionally \<open>Z\<close> or \<open>+HH:MM\<close> / \<open>-HH:MM\<close>,
  with every field in its calendar range. The result is naive when the text has no
  offset part and aware otherwise. Every other text of seven characters or more that
  starts with four digits is left to \<open>fromisoformat_other\<close>.
\<close>

definition all_digits :: "string \<Rightarrow> bool" where
  "all_digits s = list_all is_ascii_digit s"

definition is_leap :: "nat \<Rightarrow> bool" where
  "is_leap y = (y mod 4 = 0 \<and> (0 < y mod 100 \<or> y mod 400 = 0))"

definition days_in_month :: "nat \<Rightarrow> nat \<Rightarrow> nat" where
  "days_in_month y m =
     (if m = 2 then (if is_leap y then 29 else 28)
      else if m \<in> {4, 6, 9, 11} then 30 else 31)"

definition isoformat_date :: "string \<Rightarrow> (nat \<times> nat \<times> nat) option" where
  "isoformat_date s =
     (if length s = 10 \<and> all_digits (take 4 s) \<and> s ! 4 = CHR ''-''
         \<and> all_digits (take 2 (drop 5 s)) \<and> s ! 7 = CHR ''-'' \<and> all_digits (drop 8 s)
      then
        let y = digits_value (take 4 s);
            m = digits_value (take 2 (drop 5 s));
            d = digits_value (drop 8 s)
        in if 1 \<le> y \<and> 1 \<le> m \<and> m \<le> 12 \<and> 1 \<le> d \<and> d \<le> days_in_month y m
           then Some (y, m, d) else None
      else None)"

definition isoformat_hms :: "string \<Rightarrow> (nat \<times> nat \<times> nat) option" where
  "isoformat_hms s =
     (if length s = 8 \<and> all_digits (take 2 s) \<and> s ! 2 = CHR '':''
         \<and> all_digits (take 2 (drop 3 s)) \<and> s ! 5 = CHR '':'' \<and> all_digits (drop 6 s)
      then
        let h = digits_value (take 2 s);
            m = digits_value (take 2 (drop 3 s));
            sec = digits_value (drop 6 s)
        in if h \<le> 23 \<and> m \<le> 59 \<and> sec \<le> 59 then Some (h, m, sec) else None
      else None)"

text \<open>The offset part: \<open>None\<close> when malformed, \<open>Some None\<close> when absent.\<close>

definition isoformat_offset :: "string \<Rightarrow> int option option" where
  "isoformat_offset s =
     (if s = [] then Some None
      else if s = ''Z'' then Some (Some 0)
      else if length s = 6 \<and> (hd s = CHR ''+'' \<or> hd s = CHR ''-'')
              \<and> all_digits (take 2 (drop 1 s)) \<and> s ! 3 = CHR '':'' \<and> all_digits (drop 4 s)
      then
        let h = digits_value (take 2 (drop 1 s));
            m = digits_value (drop 4 s);
            u = (int h * 3600 + int m * 60) * 1000000
        in if h \<le> 23 \<and> m \<le> 59 then Some (Some (if hd s = CHR ''-'' then - u else u))
           else None
      else None)"

text \<open>The fraction and the offset that follow \<open>HH:MM:SS\<close>.\<close>

definition isoformat_tail :: "string \<Rightarrow> (nat \<times> int option) option" where
  "isoformat_tail s =
     (if s \<noteq> [] \<and> hd s = CHR ''.''
      then
        let ds = takeWhile is_ascii_digit (tl s);
            rest = dropWhile is_ascii_digit (tl s)
        in if 1 \<le> length ds \<and> length ds \<le> 6
           then (case isoformat_offset rest of
                   None \<Rightarrow> None
                 | Some off \<Rightarrow> Some (digits_value ds * 10 ^ (6 - length ds), off))
           else None
      else (case isoformat_offset s of None \<Rightarrow> None | Some off \<Rightarrow> Some (0, off)))"

definition isoformat_common :: "string \<Rightarrow> datetime option" where
  "isoformat_common s =
     (case isoformat_date (take 10 s) of
        None \<Rightarrow> None
      | Some (y, mo, d) \<Rightarrow>
          (if length s = 10
           then Some \<lparr>year = y, month = mo, day = d, hour = 0, minute = 0, second = 0,
                      microsecond = 0, utcoffset = None\<rparr>
           else if s ! 10 = CHR ''T'' \<or> s ! 10 = CHR '' ''
           then (case isoformat_hms (take 8 (drop 11 s)) of
                   None \<Rightarrow> None
                 | Some (h, mi, sec) \<Rightarrow>
                     (case isoformat_tail (drop 19 s) of
                        None \<Rightarrow> None
                      | Some (us, off) \<Rightarrow>
                          Some \<lparr>year = y, month = mo, day = d, hour = h, minute = mi,
                                second = sec, microsecond = us, utcoffset = off\<rparr>))
           else None))"

definition fromisoformat :: "pylib \<Rightarrow> pyobj \<Rightarrow> error + pyobj" where
  "fromisoformat L v =
     (case v of
        PStr s \<Rightarrow>
          (if length s < 7 then Inl ValueError
           else if \<not> all_digits (take 4 s) then Inl ValueError
           else (case isoformat_common s of
                   Some d \<Rightarrow> Inr (PDatetime d)
                 | None \<Rightarrow>
                     (case fromisoformat_other L s of
                        Inl e \<Rightarrow> Inl e
                      | Inr d \<Rightarrow> Inr (PDatetime d))))
      | _ \<Rightarrow> Inl TypeError)"

section \<open>\<open>db_types.py\<close>\<close>

text \<open>The callables that \<open>TYPE_MAP\<close> holds, by name, and what calling one does.\<close>

datatype converter = Py_str | Py_bool | Py_int | Py_float | Py_fromisoformat

definition call_converter :: "pylib \<Rightarrow> converter \<Rightarrow> pyobj \<Rightarrow> error + pyobj" where
  "call_converter L c v =
     (case c of
        Py_str \<Rightarrow> py_str L v
      | Py_bool \<Rightarrow> py_bool v
      | Py_int \<Rightarrow> py_int v
      | Py_float \<Rightarrow> py_float L v
      | Py_fromisoformat \<Rightarrow> fromisoformat L v)"

definition TYPE_MAP :: "(string \<times> converter) list" where
  "TYPE_MAP =
     [(''SYMBOL'', Py_str),
      (''BOOLEAN'', Py_bool),
      (''LONG'', Py_int),
      (''DOUBLE'', Py_float),
      (''VARCHAR'', Py_str),
      (''TIMESTAMP'', Py_fromisoformat)]"

text \<open>\<open>TYPE_MAP[t]\<close>: a missing key raises \<open>KeyError\<close>.\<close>

definition TYPE_MAP_getitem :: "string \<Rightarrow> error + converter" where
  "TYPE_MAP_getitem t =
     (case map_of TYPE_MAP t of None \<Rightarrow> Inl (KeyError t) | Some c \<Rightarrow> Inr c)"

record QuestDBColumn =
  name :: string
  type :: string

record QuestDBResponse =
  query_text :: string
  columns :: "QuestDBColumn list"
  timestamp :: int
  dataset :: "pyobj list list"
  count :: int

section \<open>\<open>QuestDB.parse_query_response\<close>\<close>

text \<open>
  \<open>msgspec.json.decode(response, type=QuestDBResponse)\<close>. The buffer is given by the JSON
  document it holds, \<open>None\<close> for bytes that are no JSON document. Decoding follows the
  declared field types: a struct is read from an object, unknown keys are skipped, a
  repeated key is decoded again, a missing field is an error; \<open>str\<close> wants a string,
  \<open>int\<close> an integer, \<open>list[T]\<close> an array of \<open>T\<close>, and the untyped \<open>tuple\<close> an array
  of anything, of any length.
\<close>

datatype json =
    JNull
  | JBool bool
  | JInt int
  | JFloat pyfloat
  | JStr string
  | JArr "json list"
  | JObj "(string \<times> json) list"

type_synonym buffer = "json option"

fun dict_of_items :: "(string \<times> pyobj) list \<Rightarrow> pydict \<Rightarrow> pydict" where
  "dict_of_items [] d = d"
| "dict_of_items ((k, v) # kvs) d = dict_of_items kvs (dict_setitem d k v)"

fun decode_any :: "json \<Rightarrow> pyobj" where
  "decode_any JNull = PNone"
| "decode_any (JBool b) = PBool b"
| "decode_any (JInt n) = PInt n"
| "decode_any (JFloat w) = PFloat w"
| "decode_any (JStr s) = PStr s"
| "decode_any (JArr xs) = PList (map decode_any xs)"
| "decode_any (JObj kvs) = PDict (dict_of_items (map (\<lambda>(k, v). (k, decode_any v)) kvs) [])"

definition decode_str :: "json \<Rightarrow> error + string" where
  "decode_str j = (case j of JStr s \<Rightarrow> Inr s | _ \<Rightarrow> Inl ValidationError)"

definition decode_int :: "json \<Rightarrow> error + int" where
  "decode_int j = (case j of JInt n \<Rightarrow> Inr n | _ \<Rightarrow> Inl ValidationError)"

definition decode_tuple :: "json \<Rightarrow> error + pyobj list" where
  "decode_tuple j = (case j of JArr xs \<Rightarrow> Inr (map decode_any xs) | _ \<Rightarrow> Inl ValidationError)"

fun decode_items :: "(json \<Rightarrow> error + 'a) \<Rightarrow> json list \<Rightarrow> error + 'a list" where
  "decode_items f [] = Inr []"
| "decode_items f (j # js) =
     (case f j of
        Inl e \<Rightarrow> Inl e
      | Inr x \<Rightarrow> (case decode_items f js of Inl e \<Rightarrow> Inl e | Inr xs \<Rightarrow> Inr (x # xs)))"

definition decode_list :: "(json \<Rightarrow> error + 'a) \<Rightarrow> json \<Rightarrow> error + 'a list" where
  "decode_list f j = (case j of JArr xs \<Rightarrow> decode_items f xs | _ \<Rightarrow> Inl ValidationError)"

fun decode_column_fields ::
  "(string \<times> json) list \<Rightarrow> string option \<Rightarrow> string option \<Rightarrow> error + QuestDBColumn" where
  "decode_column_fields [] (Some n) (Some t) = Inr \<lparr>name = n, type = t\<rparr>"
| "decode_column_fields [] _ _ = Inl ValidationError"
| "decode_column_fields ((k, v) # kvs) n t =
     (if k = ''name''
      then (case decode_str v of Inl e \<Rightarrow> Inl e | Inr s \<Rightarrow> decode_column_fields kvs (Some s) t)
      else if k = ''type''
      then (case decode_str v of Inl e \<Rightarrow> Inl e | Inr s \<Rightarrow> decode_column_fields kvs n (Some s))
      else decode_column_fields kvs n t)"

definition decode_column :: "json \<Rightarrow> error + QuestDBColumn" where
  "decode_column j =
     (case j of JObj kvs \<Rightarrow> decode_column_fields kvs None None | _ \<Rightarrow> Inl ValidationError)"

text \<open>The fields of \<open>QuestDBResponse\<close> read so far, in declaration order.\<close>

record response_fields =
  f_query :: "string option"
  f_columns :: "QuestDBColumn list option"
  f_timestamp :: "int option"
  f_dataset :: "pyobj list list option"
  f_count :: "int option"

definition no_fields :: response_fields where
  "no_fields = \<lparr>f_query = None, f_columns = None, f_timestamp = None, f_dataset = None,
                 f_count = None\<rparr>"

definition build_response :: "response_fields \<Rightarrow> error + QuestDBResponse" where
  "build_response r =
     (case (f_query r, f_columns r, f_timestamp r, f_dataset r, f_count r) of
        (Some q, Some cs, Some ts, Some ds, Some n) \<Rightarrow>
          Inr \<lparr>query_text = q, columns = cs, timestamp = ts, dataset = ds, count = n\<rparr>
      | _ \<Rightarrow> Inl ValidationError)"

fun decode_response_fields ::
  "(string \<times> json) list \<Rightarrow> response_fields \<Rightarrow> error + QuestDBResponse" where
  "decode_response_fields [] r = build_response r"
| "decode_response_fields ((k, v) # kvs) r =
     (if k = ''query''
      then (case decode_str v of
              Inl e \<Rightarrow> Inl e
            | Inr x \<Rightarrow> decode_response_fields kvs (r\<lparr>f_query := Some x\<rparr>))
      else if k = ''columns''
      then (case decode_list decode_column v of
              Inl e \<Rightarrow> Inl e
            | Inr x \<Rightarrow> decode_response_fields kvs (r\<lparr>f_columns := Some x\<rparr>))
      else if k = ''timestamp''
      then (case decode_int v of
              Inl e \<Rightarrow> Inl e
            | Inr x \<Rightarrow> decode_response_fields kvs (r\<lparr>f_timestamp := Some x\<rparr>))
      else if k = ''dataset''
      then (case decode_list decode_tuple v of
              Inl e \<Rightarrow> Inl e
            | Inr x \<Rightarrow> decode_response_fields kvs (r\<lparr>f_dataset := Some x\<rparr>))
      else if k = ''count''
      then (case decode_int v of
              Inl e \<Rightarrow> Inl e
            | Inr x \<Rightarrow> decode_response_fields kvs (r\<lparr>f_count := Some x\<rparr>))
      else decode_response_fields kvs r)"

definition parse_query_response :: "buffer \<Rightarrow> error + QuestDBResponse" where
  "parse_query_response response =
     (case response of
        None \<Rightarrow> Inl DecodeError
      | Some (JObj kvs) \<Rightarrow> decode_response_fields kvs no_fields
      | Some _ \<Rightarrow> Inl ValidationError)"

section \<open>\<open>QuestDB.parse_and_yield_query_response\<close>\<close>

text \<open>
  What a generator does when it is run to its end: the items it yields, in order, and
  the exception that stops it, if one does.
\<close>

type_synonym 'a generator = "'a list \<times> error option"

text \<open>A yielded row: the dict itself, or what \<open>into_type(**converted_row)\<close> returned.\<close>

datatype 'a row_item = Record pydict | Shaped 'a

type_synonym 'a shape = "pydict \<Rightarrow> error + 'a"

text \<open>\<open>type_converter = [TYPE_MAP[col.type] for col in response.columns]\<close>\<close>

fun type_converter :: "QuestDBColumn list \<Rightarrow> error + converter list" where
  "type_converter [] = Inr []"
| "type_converter (col # cols) =
     (case TYPE_MAP_getitem (type col) of
        Inl e \<Rightarrow> Inl e
      | Inr c \<Rightarrow> (case type_converter cols of Inl e \<Rightarrow> Inl e | Inr cs \<Rightarrow> Inr (c # cs)))"

text \<open>\<open>converter(value) if value is not None else None\<close>\<close>

definition convert_value :: "pylib \<Rightarrow> converter \<Rightarrow> pyobj \<Rightarrow> error + pyobj" where
  "convert_value L c v = (if v \<noteq> PNone then call_converter L c v else Inr PNone)"

text \<open>
  The dict comprehension over \<open>zip(response.columns, type_converter, row)\<close>, started
  from the dict built so far.
\<close>

fun converted_row ::
  "pylib \<Rightarrow> (QuestDBColumn \<times> converter \<times> pyobj) list \<Rightarrow> pydict \<Rightarrow> error + pydict" where
  "converted_row L [] d = Inr d"
| "converted_row L ((field, c, v) # rest) d =
     (case convert_value L c v of
        Inl e \<Rightarrow> Inl e
      | Inr x \<Rightarrow> converted_row L rest (dict_setitem d (name field) x))"

text \<open>\<open>into_type(**converted_row) if into_type else converted_row\<close>\<close>

definition make_item :: "'a shape option \<Rightarrow> pydict \<Rightarrow> error + 'a row_item" where
  "make_item into_type d =
     (case into_type of
        None \<Rightarrow> Inr (Record d)
      | Some f \<Rightarrow> (case f d of Inl e \<Rightarrow> Inl e | Inr x \<Rightarrow> Inr (Shaped x)))"

text \<open>\<open>for row in response.dataset: ... yield ...\<close>\<close>

fun yield_rows ::
  "pylib \<Rightarrow> QuestDBColumn list \<Rightarrow> converter list \<Rightarrow> 'a shape option \<Rightarrow> pyobj list list
     \<Rightarrow> 'a row_item generator" where
  "yield_rows L cols tc into_type [] = ([], None)"
| "yield_rows L cols tc into_type (row # rows) =
     (case converted_row L (zip cols (zip tc row)) [] of
        Inl e \<Rightarrow> ([], Some e)
      | Inr d \<Rightarrow>
          (case make_item into_type d of
             Inl e \<Rightarrow> ([], Some e)
           | Inr x \<Rightarrow>
               (case yield_rows L cols tc into_type rows of (xs, stop) \<Rightarrow> (x # xs, stop))))"

definition parse_and_yield_query_response ::
  "pylib \<Rightarrow> QuestDBResponse \<Rightarrow> 'a shape option \<Rightarrow> 'a row_item generator" where
  "parse_and_yield_query_response L response into_type =
     (case type_converter (columns response) of
        Inl e \<Rightarrow> ([], Some e)
      | Inr tc \<Rightarrow> yield_rows L (columns response) tc into_type (dataset response))"

section \<open>\<open>QuestDB.__init__\<close> and the two retrievals\<close>

text \<open>The arguments \<open>Sender\<close> is built with.\<close>

record Sender =
  protocol :: string
  sender_host :: string
  sender_port :: int
  username :: "string option"
  password :: "string option"
  auto_flush :: bool

record QuestDB =
  url :: string
  client :: Sender

text \<open>
  \<open>self.url = f"http://{host}:{9000}"\<close>; the sender gets the caller's \<open>port\<close>.
  Building the \<open>Sender\<close> and \<open>establish()\<close> are taken to succeed. The session
  attribute, which \<open>__init__\<close> sets to \<open>None\<close> and \<open>_query\<close> fills on its first call, is
  not part of the record: no result depends on it.
\<close>

definition QuestDB_init :: "string \<Rightarrow> int \<Rightarrow> string option \<Rightarrow> string option \<Rightarrow> QuestDB" where
  "QuestDB_init host port user pass =
     \<lparr>url = ''http://'' @ host @ '':'' @ str_int 9000,
      client = \<lparr>protocol = ''http'', sender_host = host, sender_port = port,
                username = user, password = pass, auto_flush = True\<rparr>\<rparr>"

text \<open>A GET request: the address and the query parameters.\<close>

record request =
  address :: string
  params :: "(string \<times> string) list"

text \<open>
  An HTTP client: the bytes the server answers a request with, or the error raised
  (by the client or by \<open>raise_for_status\<close>).
\<close>

type_synonym http_client = "request \<Rightarrow> error + buffer"

text \<open>\<open>QuestDB._query\<close>, over aiohttp.\<close>

definition query_bytes :: "http_client \<Rightarrow> QuestDB \<Rightarrow> string \<Rightarrow> error + buffer" where
  "query_bytes aiohttp_get self query_string =
     aiohttp_get \<lparr>address = url self @ ''/exec'', params = [(''query'', query_string)]\<rparr>"

text \<open>\<open>QuestDB._query_sync\<close>, over requests.\<close>

definition query_sync_bytes :: "http_client \<Rightarrow> QuestDB \<Rightarrow> string \<Rightarrow> error + buffer" where
  "query_sync_bytes requests_get self query_string =
     requests_get \<lparr>address = url self @ ''/exec'', params = [(''query'', query_string)]\<rparr>"

section \<open>\<open>QuestDB.query\<close> and \<open>QuestDB.query_sync\<close>\<close>

text \<open>
  \<open>query\<close> is a generator: it runs the retrieval and the decoding when first asked for
  a row, then passes on each row of \<open>parse_and_yield_query_response\<close>. \<open>query_sync\<close>
  runs the retrieval and the decoding when called and returns that generator itself. A
  failure of the retrieval or of the decoding is recorded the same way for both: no
  row, and the exception.
\<close>

text \<open>\<open>for row in g: yield row\<close>\<close>

fun reyield :: "'a list \<Rightarrow> error option \<Rightarrow> 'a generator" where
  "reyield [] stop = ([], stop)"
| "reyield (row # rows) stop = (case reyield rows stop of (xs, stop') \<Rightarrow> (row # xs, stop'))"

definition query ::
  "pylib \<Rightarrow> http_client \<Rightarrow> QuestDB \<Rightarrow> string \<Rightarrow> 'a shape option \<Rightarrow> 'a row_item generator" where
  "query L aiohttp_get self query_string into_type =
     (case query_bytes aiohttp_get self query_string of
        Inl e \<Rightarrow> ([], Some e)
      | Inr bytes \<Rightarrow>
          (case parse_query_response bytes of
             Inl e \<Rightarrow> ([], Some e)
           | Inr data \<Rightarrow>
               (case parse_and_yield_query_response L data into_type of
                  (rows, stop) \<Rightarrow> reyield rows stop)))"

definition query_sync ::
  "pylib \<Rightarrow> http_client \<Rightarrow> QuestDB \<Rightarrow> string \<Rightarrow> 'a shape option \<Rightarrow> 'a row_item generator" where
  "query_sync L requests_get self query_string into_type =
     (case query_sync_bytes requests_get self query_string of
        Inl e \<Rightarrow> ([], Some e)
      | Inr bytes \<Rightarrow>
          (case parse_query_response bytes of
             Inl e \<Rightarrow> ([], Some e)
           | Inr data \<Rightarrow> parse_and_yield_query_response L data into_type))"

section \<open>\<open>convert_types\<close>, \<open>QuestDB.query_df\<close> and \<open>QuestDB.query_df_sync\<close>\<close>

text \<open>
  The pandas calls the code makes, over pandas' own frames \<open>'df\<close> and columns \<open>'col\<close>:
  \<open>pd.DataFrame(data, columns=names)\<close>, \<open>df[name]\<close>, \<open>df[name] = col\<close>,
  \<open>pd.to_datetime(col)\<close>, \<open>pd.to_numeric(col, downcast="integer")\<close>,
  \<open>pd.to_numeric(col, downcast="float")\<close>, \<open>col.astype(str)\<close>,
  \<open>df.set_index(name, inplace=True)\<close> and \<open>df.sort_index(ascending=False, inplace=True)\<close>.
  Each returns the new frame or column, or the exception it raises.
\<close>

record ('df, 'col) pandas =
  DataFrame :: "pyobj list list \<Rightarrow> string list \<Rightarrow> error + 'df"
  getitem :: "'df \<Rightarrow> string \<Rightarrow> error + 'col"
  setitem :: "'df \<Rightarrow> string \<Rightarrow> 'col \<Rightarrow> error + 'df"
  to_datetime :: "'col \<Rightarrow> error + 'col"
  to_numeric_integer :: "'col \<Rightarrow> error + 'col"
  to_numeric_float :: "'col \<Rightarrow> error + 'col"
  astype_str :: "'col \<Rightarrow> error + 'col"
  set_index :: "'df \<Rightarrow> string \<Rightarrow> error + 'df"
  sort_index_descending :: "'df \<Rightarrow> error + 'df"

text \<open>\<open>df[name] = f(df[name])\<close>\<close>

definition reassign ::
  "('df, 'col) pandas \<Rightarrow> ('col \<Rightarrow> error + 'col) \<Rightarrow> 'df \<Rightarrow> string \<Rightarrow> error + 'df" where
  "reassign P f df n =
     (case getitem P df n of
        Inl e \<Rightarrow> Inl e
      | Inr c \<Rightarrow> (case f c of Inl e \<Rightarrow> Inl e | Inr c' \<Rightarrow> setitem P df n c'))"

fun convert_types ::
  "('df, 'col) pandas \<Rightarrow> 'df \<Rightarrow> QuestDBColumn list \<Rightarrow> error + 'df" where
  "convert_types P df [] = Inr df"
| "convert_types P df (col # cols) =
     (case
        (if type col = ''TIMESTAMP'' then reassign P (to_datetime P) df (name col)
         else if type col \<in> set [''BOOLEAN'', ''BYTE'', ''SHORT'', ''INT'', ''LONG'']
         then reassign P (to_numeric_integer P) df (name col)
         else if type col \<in> set [''FLOAT'', ''DOUBLE'']
         then reassign P (to_numeric_float P) df (name col)
         else if type col = ''STRING'' then reassign P (astype_str P) df (name col)
         else Inr df)
      of Inl e \<Rightarrow> Inl e
       | Inr df' \<Rightarrow> convert_types P df' cols)"

text \<open>\<open>next((col.name for col in data.columns if col.type == "TIMESTAMP"), None)\<close>\<close>

definition timestamp_col :: "QuestDBColumn list \<Rightarrow> string option" where
  "timestamp_col cols = map_option name (find (\<lambda>col. type col = ''TIMESTAMP'') cols)"

text \<open>
  \<open>if timestamp_col:\<close> tests the truth value of what \<open>next\<close> returned: \<open>None\<close> is
  false, and a \<open>str\<close> is true when it is not empty.
\<close>

definition truthy :: "string \<Rightarrow> bool" where
  "truthy s = (s \<noteq> [])"

text \<open>The body the two methods share after \<open>data\<close> is decoded, as each spells it out.\<close>

definition query_df ::
  "('df, 'col) pandas \<Rightarrow> http_client \<Rightarrow> QuestDB \<Rightarrow> string \<Rightarrow> error + 'df" where
  "query_df P aiohttp_get self query_string =
     (case query_bytes aiohttp_get self query_string of
        Inl e \<Rightarrow> Inl e
      | Inr bytes \<Rightarrow>
          (case parse_query_response bytes of
             Inl e \<Rightarrow> Inl e
           | Inr data \<Rightarrow>
               (case DataFrame P (dataset data) (map name (columns data)) of
                  Inl e \<Rightarrow> Inl e
                | Inr df0 \<Rightarrow>
                    (case convert_types P df0 (columns data) of
                       Inl e \<Rightarrow> Inl e
                     | Inr df \<Rightarrow>
                         (case timestamp_col (columns data) of
                            None \<Rightarrow> Inr df
                          | Some ts \<Rightarrow>
                              (if truthy ts
                               then (case set_index P df ts of
                                       Inl e \<Rightarrow> Inl e
                                     | Inr df1 \<Rightarrow> sort_index_descending P df1)
                               else Inr df))))))"

definition query_df_sync ::
  "('df, 'col) pandas \<Rightarrow> http_client \<Rightarrow> QuestDB \<Rightarrow> string \<Rightarrow> error + 'df" where
  "query_df_sync P requests_get self query_string =
     (case query_sync_bytes requests_get self query_string of
        Inl e \<Rightarrow> Inl e
      | Inr bytes \<Rightarrow>
          (case parse_query_response bytes of
             Inl e \<Rightarrow> Inl e
           | Inr data \<Rightarrow>
               (case DataFrame P (dataset data) (map name (columns data)) of
                  Inl e \<Rightarrow> Inl e
                | Inr df0 \<Rightarrow>
                    (case convert_types P df0 (columns data) of
                       Inl e \<Rightarrow> Inl e
                     | Inr df \<Rightarrow>
                         (case timestamp_col (columns data) of
                            None \<Rightarrow> Inr df
                          | Some ts \<Rightarrow>
                              (if truthy ts
                               then (case set_index P df ts of
                                       Inl e \<Rightarrow> Inl e
                                     | Inr df1 \<Rightarrow> sort_index_descending P df1)
                               else Inr df))))))"

section \<open>Notions the properties are stated with\<close>

text \<open>
  The specification's \<open>coerce(declaredType, rawValue)\<close>: the converter looked up in
  \<open>TYPE_MAP\<close>, applied as the comprehension applies it.
\<close>

definition coerce :: "pylib \<Rightarrow> string \<Rightarrow> pyobj \<Rightarrow> error + pyobj" where
  "coerce L t v = (case TYPE_MAP_getitem t of Inl e \<Rightarrow> Inl e | Inr c \<Rightarrow> convert_value L c v)"

text \<open>The response of the fixture \<open>sample_response\<close> in \<open>tests/test_db.py\<close>, as a document.\<close>

definition sample_document :: json where
  "sample_document =
     JObj [(''query'', JStr ''SELECT * FROM test_table''),
           (''columns'',
              JArr [JObj [(''name'', JStr ''number''), (''type'', JStr ''LONG'')],
                    JObj [(''name'', JStr ''complex''), (''type'', JStr ''DOUBLE'')],
                    JObj [(''name'', JStr ''string''), (''type'', JStr ''VARCHAR'')],
                    JObj [(''name'', JStr ''tf''), (''type'', JStr ''BOOLEAN'')],
                    JObj [(''name'', JStr ''some_symbol''), (''type'', JStr ''SYMBOL'')],
                    JObj [(''name'', JStr ''timestamp''), (''type'', JStr ''TIMESTAMP'')]]),
           (''timestamp'', JInt 1628097600000000),
           (''dataset'',
              JArr [JArr [JInt 15, JFloat 0x400921F9F01B866E, JStr ''hello'', JBool True,
                          JStr ''AAPL'', JStr ''2023-08-14T12:00:00.000000Z'']]),
           (''count'', JInt 1)]"

text \<open>A column and a response as the server writes them.\<close>

definition column_document :: "QuestDBColumn \<Rightarrow> json" where
  "column_document c = JObj [(''name'', JStr (name c)), (''type'', JStr (type c))]"

definition response_document ::
  "string \<Rightarrow> QuestDBColumn list \<Rightarrow> int \<Rightarrow> json list list \<Rightarrow> int \<Rightarrow> json" where
  "response_document q cols ts rows n =
     JObj [(''query'', JStr q),
           (''columns'', JArr (map column_document cols)),
           (''timestamp'', JInt ts),
           (''dataset'', JArr (map JArr rows)),
           (''count'', JInt n)]"

text \<open>Two columns, and a second row with one cell only.\<close>

definition ragged_document :: json where
  "ragged_document =
     response_document ''q'' [\<lparr>name = ''a'', type = ''LONG''\<rparr>, \<lparr>name = ''b'', type = ''LONG''\<rparr>] 0
       [[JInt 1, JInt 2], [JInt 3]] 2"

text \<open>One \<open>TIMESTAMP\<close> column whose name is the empty text; two rows, the earlier first.\<close>

definition empty_name_document :: json where
  "empty_name_document =
     response_document ''q'' [\<lparr>name = '''', type = ''TIMESTAMP''\<rparr>] 0
       [[JStr ''2023-01-01T00:00:00.000000Z''], [JStr ''2023-01-02T00:00:00.000000Z'']] 2"


text \<open>
  A permutation of the positions \<open>0, \<dots>, n - 1\<close>, given as the list of positions to read,
  and a response with its columns and the cells of every row so rearranged.
\<close>

definition permute :: "nat list \<Rightarrow> 'a list \<Rightarrow> 'a list" where
  "permute p xs = map (\<lambda>i. xs ! i) p"

definition is_permutation :: "nat list \<Rightarrow> nat \<Rightarrow> bool" where
  "is_permutation p n = (distinct p \<and> set p = {..<n})"

definition permute_response :: "nat list \<Rightarrow> QuestDBResponse \<Rightarrow> QuestDBResponse" where
  "permute_response p r =
     r\<lparr>columns := permute p (columns r), dataset := map (permute p) (dataset r)\<rparr>"

text \<open>Two yielded rows are dicts with the same fields and the same value for each.\<close>

fun same_fields :: "'a row_item \<Rightarrow> 'a row_item \<Rightarrow> bool" where
  "same_fields (Record d) (Record d') = (set d = set d')"
| "same_fields _ _ = False"

text \<open>Two distinct columns, two rows, one cell \<open>None\<close>.\<close>

definition two_column_response :: QuestDBResponse where
  "two_column_response =
     \<lparr>query_text = ''q'',
      columns = [\<lparr>name = ''a'', type = ''LONG''\<rparr>, \<lparr>name = ''b'', type = ''VARCHAR''\<rparr>],
      timestamp = 0,
      dataset = [[PInt 1, PStr ''x''], [PNone, PStr ''y'']],
      count = 2\<rparr>"

text \<open>
  For the proofs: the converter of a column whose type \<open>TYPE_MAP\<close> knows, the field a
  triple of the comprehension contributes, and whether its conversion succeeds.
\<close>

definition conv_of :: "QuestDBColumn \<Rightarrow> converter" where
  "conv_of c = the (map_of TYPE_MAP (type c))"

fun projr :: "error + pyobj \<Rightarrow> pyobj" where
  "projr (Inr x) = x"
| "projr (Inl e) = PNone"

definition field_of :: "pylib \<Rightarrow> QuestDBColumn \<times> converter \<times> pyobj \<Rightarrow> string \<times> pyobj" where
  "field_of L z = (case z of (f, c, v) \<Rightarrow> (name f, projr (convert_value L c v)))"

definition converts :: "pylib \<Rightarrow> QuestDBColumn \<times> converter \<times> pyobj \<Rightarrow> bool" where
  "converts L z = (case z of (f, c, v) \<Rightarrow> \<exists>x. convert_value L c v = Inr x)"

text \<open>
  For the proofs about \<open>convert_types\<close>: what is asked of pandas' frames (a column that
  was set is the one read back, setting one column leaves the others, setting a column
  to itself changes nothing), what it means for a conversion to change nothing on its
  own results, and the body of the loop for one column.
\<close>

definition frame_laws :: "('df, 'col) pandas \<Rightarrow> bool" where
  "frame_laws P =
     ((\<forall>df n c df'. setitem P df n c = Inr df' \<longrightarrow>
          getitem P df' n = Inr c \<and> (\<forall>m. m \<noteq> n \<longrightarrow> getitem P df' m = getitem P df m))
      \<and> (\<forall>df n c. getitem P df n = Inr c \<longrightarrow> setitem P df n c = Inr df))"

definition idempotent_on_results :: "('col \<Rightarrow> error + 'col) \<Rightarrow> bool" where
  "idempotent_on_results f = (\<forall>c c'. f c = Inr c' \<longrightarrow> f c' = Inr c')"

definition library_idempotent :: "('df, 'col) pandas \<Rightarrow> bool" where
  "library_idempotent P =
     (idempotent_on_results (to_datetime P) \<and> idempotent_on_results (to_numeric_integer P)
      \<and> idempotent_on_results (to_numeric_float P) \<and> idempotent_on_results (astype_str P))"

definition convert_column :: "('df, 'col) pandas \<Rightarrow> 'df \<Rightarrow> QuestDBColumn \<Rightarrow> error + 'df" where
  "convert_column P df col =
     (if type col = ''TIMESTAMP'' then reassign P (to_datetime P) df (name col)
      else if type col \<in> set [''BOOLEAN'', ''BYTE'', ''SHORT'', ''INT'', ''LONG'']
      then reassign P (to_numeric_integer P) df (name col)
      else if type col \<in> set [''FLOAT'', ''DOUBLE'']
      then reassign P (to_numeric_float P) df (name col)
      else if type col = ''STRING'' then reassign P (astype_str P) df (name col)
      else Inr df)"

text \<open>A column's own conversion, run on a frame where the column is already converted.\<close>

definition settled :: "('df, 'col) pandas \<Rightarrow> 'df \<Rightarrow> QuestDBColumn \<Rightarrow> bool" where
  "settled P df col = (convert_column P df col = Inr df)"


section \<open>Evaluating the models\<close>

lemma str_int_9000: "str_int 9000 = ''9000''"
  by (simp add: str_int_def digits10.simps digit_char_def)

lemma sample_decodes:
  "parse_query_response (Some sample_document) =
     Inr \<lparr>query_text = ''SELECT * FROM test_table'',
          columns = [\<lparr>name = ''number'', type = ''LONG''\<rparr>,
                     \<lparr>name = ''complex'', type = ''DOUBLE''\<rparr>,
                     \<lparr>name = ''string'', type = ''VARCHAR''\<rparr>,
                     \<lparr>name = ''tf'', type = ''BOOLEAN''\<rparr>,
                     \<lparr>name = ''some_symbol'', type = ''SYMBOL''\<rparr>,
                     \<lparr>name = ''timestamp'', type = ''TIMESTAMP''\<rparr>],
          timestamp = 1628097600000000,
          dataset = [[PInt 15, PFloat 0x400921F9F01B866E, PStr ''hello'', PBool True,
                      PStr ''AAPL'', PStr ''2023-08-14T12:00:00.000000Z'']],
          count = 1\<rparr>"
  by (simp add: sample_document_def parse_query_response_def decode_str_def decode_int_def
        decode_list_def decode_column_def decode_tuple_def no_fields_def build_response_def)

lemma isoformat_sample:
  "isoformat_common ''2023-08-14T12:00:00.000000Z'' =
     Some \<lparr>year = 2023, month = 8, day = 14, hour = 12, minute = 0, second = 0,
            microsecond = 0, utcoffset = Some 0\<rparr>"
  by (simp add: isoformat_common_def isoformat_date_def isoformat_hms_def isoformat_tail_def
        isoformat_offset_def all_digits_def is_ascii_digit_def digits_value_def digit_value_def
        days_in_month_def is_leap_def)

text \<open>
  The test \<open>test_query_sync\<close>: the fixture yields one record, the six fields in column
  order, the timestamp an aware \<open>datetime\<close>.
\<close>

lemma sample_rows:
  "query_sync L (\<lambda>_. Inr (Some sample_document)) self q None =
     ([Record [(''number'', PInt 15), (''complex'', PFloat 0x400921F9F01B866E),
               (''string'', PStr ''hello''), (''tf'', PBool True),
               (''some_symbol'', PStr ''AAPL''),
               (''timestamp'', PDatetime \<lparr>year = 2023, month = 8, day = 14, hour = 12,
                   minute = 0, second = 0, microsecond = 0, utcoffset = Some 0\<rparr>)]], None)"
  by (simp add: query_sync_def query_sync_bytes_def sample_decodes
        parse_and_yield_query_response_def TYPE_MAP_getitem_def TYPE_MAP_def
        convert_value_def call_converter_def py_str_def py_bool_def py_int_def py_float_def
        fromisoformat_def isoformat_sample all_digits_def is_ascii_digit_def make_item_def
        dict_setitem_def)

section \<open>Synchronous and asynchronous entry points\<close>

lemma reyield_id: "reyield rows stop = (rows, stop)"
  by (induction rows) auto

text \<open>
  C1. Whenever the two retrievals hand back the same bytes (or the same failure), \<open>query\<close>
  and \<open>query_sync\<close> yield the same rows and stop the same way, and \<open>query_df\<close> and
  \<open>query_df_sync\<close> return the same frame or the same error.
\<close>

theorem sync_async_equal:
  assumes "query_bytes aiohttp_get self q = query_sync_bytes requests_get self q"
  shows "query L aiohttp_get self q into_type = query_sync L requests_get self q into_type
         \<and> query_df P aiohttp_get self q = query_df_sync P requests_get self q"
  using assms
  by (auto simp: query_def query_sync_def query_df_def query_df_sync_def reyield_id
           split: sum.splits prod.splits)

theorem sync_async_equal_witness:
  "query_bytes (\<lambda>_. Inr (Some sample_document)) (QuestDB_init ''localhost'' 9000 None None)
       ''SELECT * FROM test_table''
     = query_sync_bytes (\<lambda>_. Inr (Some sample_document))
         (QuestDB_init ''localhost'' 9000 None None) ''SELECT * FROM test_table''
   \<and> (\<forall>L. query L (\<lambda>_. Inr (Some sample_document))
              (QuestDB_init ''localhost'' 9000 None None) ''SELECT * FROM test_table'' None
           = query_sync L (\<lambda>_. Inr (Some sample_document))
              (QuestDB_init ''localhost'' 9000 None None) ''SELECT * FROM test_table'' None)
   \<and> (\<forall>P. query_df P (\<lambda>_. Inr (Some sample_document))
              (QuestDB_init ''localhost'' 9000 None None) ''SELECT * FROM test_table''
           = query_df_sync P (\<lambda>_. Inr (Some sample_document))
              (QuestDB_init ''localhost'' 9000 None None) ''SELECT * FROM test_table'')"
proof -
  have h: "query_bytes (\<lambda>_. Inr (Some sample_document))
             (QuestDB_init ''localhost'' 9000 None None) ''SELECT * FROM test_table''
           = query_sync_bytes (\<lambda>_. Inr (Some sample_document))
               (QuestDB_init ''localhost'' 9000 None None) ''SELECT * FROM test_table''"
    by (simp add: query_bytes_def query_sync_bytes_def)
  show ?thesis
    using h sync_async_equal [OF h] by blast
qed

section \<open>The query address\<close>

text \<open>
  C10. Whatever \<open>port\<close> the constructor is given, the address both query paths request
  is \<open>http://host:9000/exec\<close>; only the sender is built with the caller's port.
\<close>

theorem query_url_port_9000:
  "url (QuestDB_init host port user pass) = ''http://'' @ host @ '':9000''
   \<and> sender_port (client (QuestDB_init host port user pass)) = port
   \<and> query_bytes aiohttp_get (QuestDB_init host port user pass) q
       = aiohttp_get \<lparr>address = ''http://'' @ host @ '':9000/exec'', params = [(''query'', q)]\<rparr>
   \<and> query_sync_bytes requests_get (QuestDB_init host port user pass) q
       = requests_get \<lparr>address = ''http://'' @ host @ '':9000/exec'', params = [(''query'', q)]\<rparr>"
  by (simp add: QuestDB_init_def query_bytes_def query_sync_bytes_def str_int_9000)

section \<open>Coercion\<close>

text \<open>
  C5. A \<open>None\<close> cell stays \<open>None\<close> under every converter, hence under each of the six
  declared types of \<open>TYPE_MAP\<close>: the test for \<open>None\<close> comes first and the converter is
  not called.
\<close>

theorem null_propagation:
  "convert_value L c PNone = Inr PNone
   \<and> coerce L ''SYMBOL'' PNone = Inr PNone
   \<and> coerce L ''BOOLEAN'' PNone = Inr PNone
   \<and> coerce L ''LONG'' PNone = Inr PNone
   \<and> coerce L ''DOUBLE'' PNone = Inr PNone
   \<and> coerce L ''VARCHAR'' PNone = Inr PNone
   \<and> coerce L ''TIMESTAMP'' PNone = Inr PNone"
  by (simp add: convert_value_def coerce_def TYPE_MAP_getitem_def TYPE_MAP_def)

text \<open>Called on \<open>None\<close>, \<open>int\<close> would have raised: the order of the test matters.\<close>

lemma int_of_None_raises: "call_converter L Py_int PNone = Inl TypeError"
  by (simp add: call_converter_def py_int_def)

section \<open>Unknown column types\<close>

lemma type_converter_unknown:
  "c \<in> set cols \<Longrightarrow> map_of TYPE_MAP (type c) = None \<Longrightarrow>
   \<exists>t. type_converter cols = Inl (KeyError t) \<and> map_of TYPE_MAP t = None"
proof (induction cols)
  case Nil
  then show ?case by simp
next
  case (Cons a cols)
  show ?case
  proof (cases "map_of TYPE_MAP (type a)")
    case None
    then show ?thesis by (auto simp: TYPE_MAP_getitem_def)
  next
    case (Some conv)
    with Cons.prems have "c \<in> set cols" by auto
    from Cons.IH [OF this Cons.prems(2)] Some show ?thesis
      by (auto simp: TYPE_MAP_getitem_def)
  qed
qed

text \<open>
  C6. If some column's declared type has no entry in \<open>TYPE_MAP\<close>, the row materializer
  yields no row at all and stops with \<open>UnknownColumnType\<close> (Python's \<open>KeyError\<close>) for a
  type that has no entry, whatever the dataset holds: the table of converters is built
  before the first row is looked at, and no default converter is put in.
\<close>

theorem unknown_type_fails_fast:
  assumes "c \<in> set (columns response)" and "map_of TYPE_MAP (type c) = None"
  shows "\<exists>t. parse_and_yield_query_response L response into_type
               = ([], Some (UnknownColumnType t))
             \<and> map_of TYPE_MAP t = None"
  using type_converter_unknown [OF assms]
  by (auto simp: parse_and_yield_query_response_def)

theorem unknown_type_fails_fast_witness:
  "\<lparr>name = ''n'', type = ''INT''\<rparr>
     \<in> set (columns \<lparr>query_text = ''q'', columns = [\<lparr>name = ''n'', type = ''INT''\<rparr>],
                      timestamp = 0, dataset = [[PInt 1]], count = 1\<rparr>)
   \<and> map_of TYPE_MAP (type \<lparr>name = ''n'', type = ''INT''\<rparr>) = None
   \<and> (\<forall>L. \<exists>t. parse_and_yield_query_response L
                 \<lparr>query_text = ''q'', columns = [\<lparr>name = ''n'', type = ''INT''\<rparr>],
                  timestamp = 0, dataset = [[PInt 1]], count = 1\<rparr> None
               = ([], Some (UnknownColumnType t))
             \<and> map_of TYPE_MAP t = None)"
proof -
  have h1: "\<lparr>name = ''n'', type = ''INT''\<rparr>
     \<in> set (columns \<lparr>query_text = ''q'', columns = [\<lparr>name = ''n'', type = ''INT''\<rparr>],
                      timestamp = 0, dataset = [[PInt 1]], count = 1\<rparr>)"
    by simp
  have h2: "map_of TYPE_MAP (type \<lparr>name = ''n'', type = ''INT''\<rparr>) = None"
    by (simp add: TYPE_MAP_def)
  show ?thesis
    using h1 h2 unknown_type_fails_fast [OF h1 h2] by blast
qed

section \<open>Coercion of values that are not \<open>None\<close>\<close>

text \<open>
  C7, as stated, fails: \<open>str\<close>, \<open>bool\<close> and \<open>int\<close> convert a value of another kind.
  Under \<open>SYMBOL\<close> the integer \<open>15\<close> becomes the text \<open>15\<close>; under \<open>BOOLEAN\<close> the text
  \<open>false\<close> becomes \<open>True\<close>; under \<open>LONG\<close> the text \<open>abc\<close> raises \<open>ValueError\<close>.
\<close>

theorem off_type_not_identity:
  "\<forall>L. coerce L ''SYMBOL'' (PInt 15) = Inr (PStr ''15'')
       \<and> coerce L ''SYMBOL'' (PInt 15) \<noteq> Inr (PInt 15)
       \<and> coerce L ''BOOLEAN'' (PStr ''false'') = Inr (PBool True)
       \<and> coerce L ''LONG'' (PStr ''abc'') = Inl ValueError"
  by (simp add: coerce_def TYPE_MAP_getitem_def TYPE_MAP_def convert_value_def call_converter_def
        py_str_def py_bool_def py_int_def int_of_str_def strip_space_def int_space_def
        is_ascii_digit_def str_int_def digits10.simps digit_char_def int_max_str_digits_def)

text \<open>
  C7, amended. A text under \<open>SYMBOL\<close> or \<open>VARCHAR\<close>, a boolean under \<open>BOOLEAN\<close>, an
  integer under \<open>LONG\<close> and a float under \<open>DOUBLE\<close> come back unchanged.
\<close>

theorem identity_on_native_values:
  "coerce L ''SYMBOL'' (PStr s) = Inr (PStr s)
   \<and> coerce L ''VARCHAR'' (PStr s) = Inr (PStr s)
   \<and> coerce L ''BOOLEAN'' (PBool b) = Inr (PBool b)
   \<and> coerce L ''LONG'' (PInt n) = Inr (PInt n)
   \<and> coerce L ''DOUBLE'' (PFloat w) = Inr (PFloat w)"
  by (simp add: coerce_def TYPE_MAP_getitem_def TYPE_MAP_def convert_value_def call_converter_def
        py_str_def py_bool_def py_int_def py_float_def)

section \<open>Decoding and row lengths\<close>






text \<open>The row materializer then yields a record with the one field: \<open>zip\<close> stops early.\<close>

lemma ragged_rows_truncated:
  "query_sync L (\<lambda>_. Inr (Some ragged_document)) self q None =
     ([Record [(''a'', PInt 1), (''b'', PInt 2)], Record [(''a'', PInt 3)]], None)"
  by (simp add: query_sync_def query_sync_bytes_def
        ragged_document_def response_document_def column_document_def
        parse_query_response_def decode_str_def decode_int_def
        decode_list_def decode_column_def decode_tuple_def no_fields_def build_response_def
        parse_and_yield_query_response_def TYPE_MAP_getitem_def TYPE_MAP_def
        convert_value_def call_converter_def py_int_def make_item_def dict_setitem_def)


section \<open>The timestamp index\<close>

lemma empty_name_decodes:
  "parse_query_response (Some empty_name_document) =
     Inr \<lparr>query_text = ''q'', columns = [\<lparr>name = '''', type = ''TIMESTAMP''\<rparr>], timestamp = 0,
          dataset = [[PStr ''2023-01-01T00:00:00.000000Z''], [PStr ''2023-01-02T00:00:00.000000Z'']],
          count = 2\<rparr>"
  by (simp add: empty_name_document_def response_document_def column_document_def
        parse_query_response_def decode_str_def decode_int_def
        decode_list_def decode_column_def decode_tuple_def no_fields_def build_response_def)

text \<open>
  C3 at a response whose only column is a \<open>TIMESTAMP\<close> column named by the empty text:
  \<open>timestamp_col\<close> is the empty text, which \<open>if timestamp_col:\<close> takes for false, so
  both methods return the frame as \<open>convert_types\<close> left it. Neither \<open>set_index\<close> nor
  \<open>sort_index\<close> is called, whatever pandas does.
\<close>

theorem empty_name_timestamp_not_indexed:
  "query_df P (\<lambda>_. Inr (Some empty_name_document)) self q =
     (case DataFrame P [[PStr ''2023-01-01T00:00:00.000000Z''],
                        [PStr ''2023-01-02T00:00:00.000000Z'']] [''''] of
        Inl e \<Rightarrow> Inl e
      | Inr df0 \<Rightarrow> reassign P (to_datetime P) df0 '''')
   \<and> query_df_sync P (\<lambda>_. Inr (Some empty_name_document)) self q =
     (case DataFrame P [[PStr ''2023-01-01T00:00:00.000000Z''],
                        [PStr ''2023-01-02T00:00:00.000000Z'']] [''''] of
        Inl e \<Rightarrow> Inl e
      | Inr df0 \<Rightarrow> reassign P (to_datetime P) df0 '''')"
  by (simp add: query_df_def query_df_sync_def query_bytes_def query_sync_bytes_def
        empty_name_decodes timestamp_col_def truthy_def split: sum.splits)

text \<open>
  What \<open>query_df\<close> does after the conversion in general: nothing when no column is a
  \<open>TIMESTAMP\<close> or the first such column has an empty name, else \<open>set_index\<close> on that
  name followed by \<open>sort_index(ascending=False)\<close>.
\<close>

lemma query_df_after_conversion:
  assumes "parse_query_response bytes = Inr data"
    and "DataFrame P (dataset data) (map name (columns data)) = Inr df0"
    and "convert_types P df0 (columns data) = Inr df"
  shows "query_df P (\<lambda>_. Inr bytes) self q =
     (case find (\<lambda>col. type col = ''TIMESTAMP'') (columns data) of
        None \<Rightarrow> Inr df
      | Some col \<Rightarrow>
          (if name col = [] then Inr df
           else (case set_index P df (name col) of
                   Inl e \<Rightarrow> Inl e
                 | Inr df1 \<Rightarrow> sort_index_descending P df1)))"
  using assms
  by (simp add: query_df_def query_bytes_def timestamp_col_def truthy_def split: option.splits)

section \<open>Timestamps\<close>









section \<open>Positional integrity\<close>

lemma type_converter_Inr:
  "type_converter cols = Inr tc \<Longrightarrow>
   tc = map conv_of cols \<and> (\<forall>c\<in>set cols. TYPE_MAP_getitem (type c) = Inr (conv_of c))"
  by (induction cols arbitrary: tc)
     (auto simp: TYPE_MAP_getitem_def conv_of_def split: option.splits sum.splits)

lemma type_converter_known:
  "(\<forall>c\<in>set cols. map_of TYPE_MAP (type c) \<noteq> None) \<Longrightarrow>
   type_converter cols = Inr (map conv_of cols)"
  by (induction cols) (auto simp: TYPE_MAP_getitem_def conv_of_def)

lemma type_converter_Inl:
  "type_converter cols = Inl e \<Longrightarrow> \<exists>c\<in>set cols. map_of TYPE_MAP (type c) = None"
  using type_converter_known by fastforce

lemma converted_row_Inr:
  "converted_row L zs d = Inr d' \<Longrightarrow>
   list_all (converts L) zs \<and> map_of d' = map_of d ++ map_of (rev (map (field_of L) zs))"
proof (induction zs arbitrary: d)
  case Nil
  then show ?case by simp
next
  case (Cons z zs)
  obtain f c v where z: "z = (f, c, v)" by (cases z)
  from Cons.prems z obtain x where x: "convert_value L c v = Inr x"
    and rest: "converted_row L zs (dict_setitem d (name f) x) = Inr d'"
    by (auto split: sum.splits)
  from Cons.IH [OF rest] have all: "list_all (converts L) zs"
    and m: "map_of d' = map_of (dict_setitem d (name f) x) ++ map_of (rev (map (field_of L) zs))"
    by auto
  have "map_of (dict_setitem d (name f) x) = map_of d ++ map_of [field_of L z]"
    by (simp add: dict_setitem_def update_conv' field_of_def z x map_add_upd)
  with m have "map_of d' = map_of d ++ map_of (rev (map (field_of L) (z # zs)))"
    by (simp add: map_add_assoc)
  moreover have "converts L z" using x z by (simp add: converts_def)
  ultimately show ?case using all by simp
qed

lemma converted_row_total:
  "list_all (converts L) zs \<Longrightarrow> \<exists>d'. converted_row L zs d = Inr d'"
  by (induction zs arbitrary: d) (auto simp: converts_def)

lemma converted_row_distinct:
  "converted_row L zs d = Inr d' \<Longrightarrow> distinct (map fst d) \<Longrightarrow> distinct (map fst d')"
  by (induction zs arbitrary: d)
     (auto simp: dict_setitem_def distinct_update split: sum.splits)

lemma zip_triples:
  "zip cols (zip (map conv_of cols) row) = map (\<lambda>(c, v). (c, conv_of c, v)) (zip cols row)"
  by (induction cols arbitrary: row) (auto simp: zip_Cons1 split: list.splits)

lemma triple_names:
  "map (\<lambda>z. fst (field_of L z)) (zip cols (zip (map conv_of cols) row))
     = take (length row) (map name cols)"
  by (induction cols arbitrary: row) (auto simp: field_of_def zip_Cons1 split: list.splits)

lemma field_lookup:
  assumes row: "converted_row L zs [] = Inr d"
    and dist: "distinct (map (\<lambda>z. fst (field_of L z)) zs)"
    and mem: "(f, c, v) \<in> set zs"
  shows "\<exists>x. convert_value L c v = Inr x \<and> dict_get d (name f) = Some x"
proof -
  from converted_row_Inr [OF row] have all: "list_all (converts L) zs"
    and m: "map_of d = map_of (rev (map (field_of L) zs))"
    by auto
  from all mem obtain x where x: "convert_value L c v = Inr x"
    by (auto simp: list_all_iff converts_def)
  from mem x have "(name f, x) \<in> set (rev (map (field_of L) zs))"
    by (force simp: field_of_def)
  moreover from dist have "distinct (map fst (rev (map (field_of L) zs)))"
    by (simp add: rev_map [symmetric] comp_def)
  ultimately have "map_of (rev (map (field_of L) zs)) (name f) = Some x"
    by (rule map_of_is_SomeI [rotated])
  with m x show ?thesis by (simp add: dict_get_def)
qed

lemma yield_rows_nth:
  "yield_rows L cols tc None rows = (items, stop) \<Longrightarrow> k < length items \<Longrightarrow>
   k < length rows \<and>
   (\<exists>d. items ! k = Record d \<and> converted_row L (zip cols (zip tc (rows ! k))) [] = Inr d)"
proof (induction rows arbitrary: items stop k)
  case Nil
  then show ?case by simp
next
  case (Cons row rows)
  from Cons.prems obtain d xs where d: "converted_row L (zip cols (zip tc row)) [] = Inr d"
    and rest: "yield_rows L cols tc None rows = (xs, stop)" and items: "items = Record d # xs"
    by (auto simp: make_item_def split: sum.splits prod.splits)
  show ?case
  proof (cases k)
    case 0
    with d items show ?thesis by simp
  next
    case (Suc j)
    with Cons.prems(2) items have "j < length xs" by simp
    from Cons.IH [OF rest this] Suc items show ?thesis by simp
  qed
qed


lemma coerce_conv_of:
  "TYPE_MAP_getitem (type c) = Inr (conv_of c) \<Longrightarrow> coerce L (type c) v = convert_value L (conv_of c) v"
  by (simp add: coerce_def)

lemma positional:
  assumes dist: "distinct (map name cols)"
    and tc: "type_converter cols = Inr tc"
    and run: "yield_rows L cols tc None rows = (items, stop)"
    and k: "k < length items" and i: "i < length cols" "i < length (rows ! k)"
  shows "\<exists>d v. items ! k = Record d
           \<and> coerce L (type (cols ! i)) (rows ! k ! i) = Inr v
           \<and> dict_get d (name (cols ! i)) = Some v"
proof -
  from type_converter_Inr [OF tc] have tc_eq: "tc = map conv_of cols"
    and known: "\<forall>c\<in>set cols. TYPE_MAP_getitem (type c) = Inr (conv_of c)"
    by auto
  let ?row = "rows ! k"
  let ?zs = "zip cols (zip (map conv_of cols) ?row)"
  from yield_rows_nth [OF run k] tc_eq obtain d where
    item: "items ! k = Record d" and row: "converted_row L ?zs [] = Inr d"
    by auto
  have names: "distinct (map (\<lambda>z. fst (field_of L z)) ?zs)"
    using dist by (simp add: triple_names distinct_take)
  have "(cols ! i, ?row ! i) \<in> set (zip cols ?row)"
    using i by (auto simp: set_zip)
  then have mem: "(cols ! i, conv_of (cols ! i), ?row ! i) \<in> set ?zs"
    by (force simp: zip_triples)
  from field_lookup [OF row names mem] obtain x where
    x: "convert_value L (conv_of (cols ! i)) (?row ! i) = Inr x"
       "dict_get d (name (cols ! i)) = Some x"
    by blast
  from known i have "TYPE_MAP_getitem (type (cols ! i)) = Inr (conv_of (cols ! i))"
    by simp
  from coerce_conv_of [OF this] x item show ?thesis by simp
qed

lemma permute_zip:
  "\<forall>i\<in>set p. i < length xs \<and> i < length ys \<Longrightarrow>
   zip (permute p xs) (permute p ys) = permute p (zip xs ys)"
  by (induction p) (simp_all add: permute_def)

lemma permute_map:
  "\<forall>i\<in>set p. i < length xs \<Longrightarrow> permute p (map f xs) = map f (permute p xs)"
  by (simp add: permute_def)

lemma set_permute:
  assumes "is_permutation p (length xs)"
  shows "set (permute p xs) = set xs"
proof -
  have "set (permute p xs) = (!) xs ` {..<length xs}"
    using assms by (simp add: is_permutation_def permute_def)
  also have "\<dots> = set xs"
    by (auto simp: set_conv_nth)
  finally show ?thesis .
qed

lemma distinct_permute:
  "is_permutation p (length xs) \<Longrightarrow> distinct xs \<Longrightarrow> distinct (permute p xs)"
  by (auto simp: is_permutation_def permute_def distinct_map intro: inj_on_nth)

lemma length_permute: "length (permute p xs) = length p"
  by (simp add: permute_def)

lemma permuted_triples:
  assumes perm: "is_permutation p (length cols)"
    and dist: "distinct (map name cols)"
    and len: "length row = length cols"
  shows "set (zip (permute p cols) (zip (map conv_of (permute p cols)) (permute p row)))
           = set (zip cols (zip (map conv_of cols) row))"
    and "distinct (map (\<lambda>z. fst (field_of L z))
           (zip (permute p cols) (zip (map conv_of (permute p cols)) (permute p row))))"
proof -
  from perm have bound: "\<forall>i\<in>set p. i < length cols \<and> i < length row"
    using len by (auto simp: is_permutation_def)
  have zlen: "length (zip cols row) = length cols" using len by simp
  have "zip (permute p cols) (permute p row) = permute p (zip cols row)"
    using bound by (rule permute_zip)
  moreover have "set (permute p (zip cols row)) = set (zip cols row)"
    using perm zlen by (simp add: set_permute)
  ultimately show "set (zip (permute p cols) (zip (map conv_of (permute p cols)) (permute p row)))
           = set (zip cols (zip (map conv_of cols) row))"
    by (simp add: zip_triples)
  have "map name (permute p cols) = permute p (map name cols)"
    using bound by (simp add: permute_map)
  moreover have "distinct (permute p (map name cols))"
    using perm dist by (simp add: distinct_permute)
  moreover have "length (permute p row) = length (permute p cols)"
    by (simp add: length_permute)
  ultimately show "distinct (map (\<lambda>z. fst (field_of L z))
           (zip (permute p cols) (zip (map conv_of (permute p cols)) (permute p row))))"
    by (simp add: triple_names)
qed

lemma same_fields_of_rows:
  assumes set_eq: "set zs' = set zs"
    and dist: "distinct (map (\<lambda>z. fst (field_of L z)) zs)"
    and dist': "distinct (map (\<lambda>z. fst (field_of L z)) zs')"
    and row: "converted_row L zs [] = Inr d"
  shows "\<exists>d'. converted_row L zs' [] = Inr d' \<and> set d = set d'"
proof -
  from converted_row_Inr [OF row] have all: "list_all (converts L) zs"
    and m: "map_of d = map_of (rev (map (field_of L) zs))"
    by auto
  from all set_eq have "list_all (converts L) zs'" by (simp add: list_all_iff)
  from converted_row_total [OF this] obtain d' where row': "converted_row L zs' [] = Inr d'"
    by blast
  from converted_row_Inr [OF row'] have m': "map_of d' = map_of (rev (map (field_of L) zs'))"
    by auto
  have "distinct (map fst (rev (map (field_of L) zs)))"
       "distinct (map fst (rev (map (field_of L) zs')))"
    using dist dist' by (simp_all add: rev_map [symmetric] comp_def)
  moreover have "set (rev (map (field_of L) zs)) = set (rev (map (field_of L) zs'))"
    using set_eq by simp
  ultimately have "map_of (rev (map (field_of L) zs)) = map_of (rev (map (field_of L) zs'))"
    by (simp add: map_of_inject_set)
  with m m' have "map_of d = map_of d'" by simp
  moreover have "distinct (map fst d)" "distinct (map fst d')"
    using converted_row_distinct [OF row] converted_row_distinct [OF row'] by simp_all
  ultimately have "set d = set d'" by (simp add: map_of_inject_set)
  with row' show ?thesis by blast
qed

lemma failure_of_rows:
  assumes set_eq: "set zs' = set zs" and row: "converted_row L zs [] = Inl e"
  shows "\<exists>e'. converted_row L zs' [] = Inl e'"
proof (cases "converted_row L zs' []")
  case (Inl e')
  then show ?thesis by blast
next
  case (Inr d')
  from converted_row_Inr [OF this] set_eq have "list_all (converts L) zs"
    by (simp add: list_all_iff)
  from converted_row_total [OF this, of "[]"] row show ?thesis by simp
qed


lemma yield_rows_permuted:
  assumes perm: "is_permutation p (length cols)" and dist: "distinct (map name cols)"
  shows "list_all (\<lambda>row. length row = length cols) rows \<Longrightarrow>
    yield_rows L cols (map conv_of cols) None rows = (items :: 'a row_item list, stop) \<Longrightarrow>
    yield_rows L (permute p cols) (map conv_of (permute p cols)) None (map (permute p) rows)
      = (items' :: 'a row_item list, stop') \<Longrightarrow>
    length items' = length items \<and> (stop' = None \<longleftrightarrow> stop = None)
    \<and> (\<forall>k<length items. same_fields (items ! k) (items' ! k))"
proof (induction rows arbitrary: items stop items' stop')
  case Nil
  then show ?case by simp
next
  case (Cons row rows)
  let ?zs = "zip cols (zip (map conv_of cols) row)"
  let ?zs' = "zip (permute p cols) (zip (map conv_of (permute p cols)) (permute p row))"
  from Cons.prems(1) have len: "length row = length cols"
    and lens: "list_all (\<lambda>row. length row = length cols) rows"
    by simp_all
  note tr = permuted_triples(1) [OF perm dist len] permuted_triples(2) [OF perm dist len]
  have names: "distinct (map (\<lambda>z. fst (field_of L z)) ?zs)"
    using dist by (simp add: triple_names distinct_take)
  show ?case
  proof (cases "converted_row L ?zs []")
    case (Inl e)
    from failure_of_rows [OF tr(1) Inl] obtain e' where "converted_row L ?zs' [] = Inl e'"
      by blast
    with Inl Cons.prems(2,3) show ?thesis by auto
  next
    case (Inr d)
    from same_fields_of_rows [OF tr(1) names tr(2) Inr] obtain d' where
      d': "converted_row L ?zs' [] = Inr d'" and same: "set d = set d'"
      by blast
    obtain xs :: "'a row_item list" and st where rest: "yield_rows L cols (map conv_of cols) None rows = (xs, st)"
      by (cases "yield_rows L cols (map conv_of cols) None rows :: 'a row_item generator")
    obtain xs' :: "'a row_item list" and st' where rest':
      "yield_rows L (permute p cols) (map conv_of (permute p cols)) None (map (permute p) rows)
         = (xs', st')"
      by (cases "yield_rows L (permute p cols) (map conv_of (permute p cols)) None
                   (map (permute p) rows) :: 'a row_item generator")
    from Cons.prems(2) Inr rest have items: "items = Record d # xs" "stop = st"
      by (simp_all add: make_item_def)
    from Cons.prems(3) d' rest' have items': "items' = Record d' # xs'" "stop' = st'"
      by (simp_all add: make_item_def)
    from Cons.IH [OF lens rest rest'] have ih: "length xs' = length xs"
      "st' = None \<longleftrightarrow> st = None" "\<forall>k<length xs. same_fields (xs ! k) (xs' ! k)"
      by simp_all
    have "same_fields (items ! k) (items' ! k)" if "k < length items" for k
      using that items items' same ih(3) by (cases k) simp_all
    with ih items items' show ?thesis by simp
  qed
qed

lemma parse_and_yield_permuted:
  assumes perm: "is_permutation p (length (columns r))"
    and dist: "distinct (map name (columns r))"
    and lens: "list_all (\<lambda>row. length row = length (columns r)) (dataset r)"
    and run: "parse_and_yield_query_response L r None = (items :: 'a row_item list, stop)"
  shows "\<exists>items' stop'.
           parse_and_yield_query_response L (permute_response p r) None = (items', stop')
           \<and> length items' = length items \<and> (stop' = None \<longleftrightarrow> stop = None)
           \<and> (\<forall>k<length items. same_fields (items ! k) (items' ! k))"
proof (cases "type_converter (columns r)")
  case (Inl e)
  from type_converter_Inl [OF this] obtain c where "c \<in> set (columns r)"
    "map_of TYPE_MAP (type c) = None"
    by blast
  with set_permute [OF perm] have "c \<in> set (columns (permute_response p r))"
    by (simp add: permute_response_def)
  from type_converter_unknown [OF this \<open>map_of TYPE_MAP (type c) = None\<close>]
  obtain t where "parse_and_yield_query_response L (permute_response p r) None
                    = ([] :: 'a row_item list, Some (KeyError t))"
    by (auto simp: parse_and_yield_query_response_def)
  moreover from Inl run have "items = []" "stop \<noteq> None"
    by (auto simp: parse_and_yield_query_response_def)
  ultimately show ?thesis by simp
next
  case (Inr tc)
  from type_converter_Inr [OF this] have tc: "tc = map conv_of (columns r)"
    and known: "\<forall>c\<in>set (columns r). map_of TYPE_MAP (type c) \<noteq> None"
    by (auto simp: TYPE_MAP_getitem_def split: option.splits)
  from known set_permute [OF perm]
  have "\<forall>c\<in>set (permute p (columns r)). map_of TYPE_MAP (type c) \<noteq> None"
    by simp
  from type_converter_known [OF this]
  have tc': "type_converter (permute p (columns r)) = Inr (map conv_of (permute p (columns r)))" .
  from run Inr tc
  have run1: "yield_rows L (columns r) (map conv_of (columns r)) None (dataset r) = (items, stop)"
    by (simp add: parse_and_yield_query_response_def)
  obtain items' :: "'a row_item list" and stop' where run2:
    "yield_rows L (permute p (columns r)) (map conv_of (permute p (columns r))) None
       (map (permute p) (dataset r)) = (items', stop')"
    by (cases "yield_rows L (permute p (columns r)) (map conv_of (permute p (columns r))) None
                 (map (permute p) (dataset r)) :: 'a row_item generator")
  from yield_rows_permuted [OF perm dist lens run1 run2] tc' run2 show ?thesis
    by (simp add: parse_and_yield_query_response_def permute_response_def)
qed

text \<open>
  C4, as stated, fails: with two columns of the same name the dict keeps one field, and
  it holds the later cell. The field named \<open>columns[0].name\<close> is \<open>2\<close>, the coercion of
  the row's cell \<open>0\<close> is \<open>1\<close>.
\<close>

theorem duplicate_names_shadow:
  "\<forall>L. parse_and_yield_query_response L
          \<lparr>query_text = ''q'',
           columns = [\<lparr>name = ''a'', type = ''LONG''\<rparr>, \<lparr>name = ''a'', type = ''LONG''\<rparr>],
           timestamp = 0, dataset = [[PInt 1, PInt 2]], count = 1\<rparr> None
        = ([Record [(''a'', PInt 2)]], None)
       \<and> coerce L ''LONG'' (PInt 1) = Inr (PInt 1)"
  by (simp add: parse_and_yield_query_response_def TYPE_MAP_getitem_def TYPE_MAP_def
        convert_value_def call_converter_def py_int_def make_item_def dict_setitem_def
        coerce_def)

text \<open>
  C4, amended. Let the column names be pairwise distinct. For every row \<open>k\<close> the
  materializer yields and every position \<open>i\<close> below the number of columns and below the
  length of row \<open>k\<close>, the record has a field named \<open>columns[i].name\<close> whose value is the
  coercion of the row's cell \<open>i\<close> under \<open>columns[i].type\<close>. If moreover every row has as
  many cells as there are columns, then applying one permutation to the columns and to
  the cells of every row gives as many records, stopping the same way, each with the
  same fields and values as before.
\<close>

theorem positional_integrity:
  assumes "distinct (map name (columns response))"
    and "parse_and_yield_query_response L response None = (items, stop)"
  shows "(k < length items \<and> i < length (columns response)
            \<and> i < length (dataset response ! k) \<longrightarrow>
          (\<exists>d v. items ! k = Record d
             \<and> coerce L (type (columns response ! i)) (dataset response ! k ! i) = Inr v
             \<and> dict_get d (name (columns response ! i)) = Some v))
       \<and> (is_permutation p (length (columns response))
            \<and> list_all (\<lambda>row. length row = length (columns response)) (dataset response) \<longrightarrow>
          (\<exists>items' stop'.
             parse_and_yield_query_response L (permute_response p response) None
               = (items', stop')
             \<and> length items' = length items \<and> (stop' = None \<longleftrightarrow> stop = None)
             \<and> (\<forall>k<length items. same_fields (items ! k) (items' ! k))))"
proof (intro conjI impI)
  assume b: "k < length items \<and> i < length (columns response)
               \<and> i < length (dataset response ! k)"
  from assms(2) obtain tc where tc: "type_converter (columns response) = Inr tc"
    and run: "yield_rows L (columns response) tc None (dataset response) = (items, stop)"
    using b by (auto simp: parse_and_yield_query_response_def split: sum.splits)
  from positional [OF assms(1) tc run] b
  show "\<exists>d v. items ! k = Record d
          \<and> coerce L (type (columns response ! i)) (dataset response ! k ! i) = Inr v
          \<and> dict_get d (name (columns response ! i)) = Some v"
    by blast
next
  assume "is_permutation p (length (columns response))
            \<and> list_all (\<lambda>row. length row = length (columns response)) (dataset response)"
  then show "\<exists>items' stop'.
             parse_and_yield_query_response L (permute_response p response) None
               = (items', stop')
             \<and> length items' = length items \<and> (stop' = None \<longleftrightarrow> stop = None)
             \<and> (\<forall>k<length items. same_fields (items ! k) (items' ! k))"
    using parse_and_yield_permuted [OF _ assms(1) _ assms(2)] by blast
qed

lemma two_column_rows:
  "parse_and_yield_query_response L two_column_response None =
     ([Record [(''a'', PInt 1), (''b'', PStr ''x'')],
       Record [(''a'', PNone), (''b'', PStr ''y'')]], None)"
  by (simp add: two_column_response_def parse_and_yield_query_response_def
        TYPE_MAP_getitem_def TYPE_MAP_def convert_value_def call_converter_def py_int_def
        py_str_def make_item_def dict_setitem_def)

theorem positional_integrity_witness:
  "\<forall>L. distinct (map name (columns two_column_response))
     \<and> parse_and_yield_query_response L two_column_response None =
         ([Record [(''a'', PInt 1), (''b'', PStr ''x'')],
           Record [(''a'', PNone), (''b'', PStr ''y'')]] :: 'a row_item list, None)
     \<and> is_permutation [1, 0] (length (columns two_column_response))
     \<and> list_all (\<lambda>row. length row = length (columns two_column_response))
          (dataset two_column_response)
     \<and> (\<exists>d v. ([Record [(''a'', PInt 1), (''b'', PStr ''x'')],
                 Record [(''a'', PNone), (''b'', PStr ''y'')]] :: 'a row_item list) ! 1
                = Record d
            \<and> coerce L (type (columns two_column_response ! 1))
                 (dataset two_column_response ! 1 ! 1) = Inr v
            \<and> dict_get d (name (columns two_column_response ! 1)) = Some v)
     \<and> (\<exists>items' stop'.
           parse_and_yield_query_response L (permute_response [1, 0] two_column_response) None
             = (items' :: 'a row_item list, stop')
           \<and> length items' = 2 \<and> stop' = None
           \<and> same_fields (Record [(''a'', PInt 1), (''b'', PStr ''x'')]) (items' ! 0)
           \<and> same_fields (Record [(''a'', PNone), (''b'', PStr ''y'')]) (items' ! 1))"
proof
  fix L
  let ?I = "[Record [(''a'', PInt 1), (''b'', PStr ''x'')],
             Record [(''a'', PNone), (''b'', PStr ''y'')]] :: 'a row_item list"
  have h1: "distinct (map name (columns two_column_response))"
    by (simp add: two_column_response_def)
  have h2: "parse_and_yield_query_response L two_column_response None = (?I, None)"
    by (rule two_column_rows)
  have b1: "1 < length ?I \<and> 1 < length (columns two_column_response)
              \<and> 1 < length (dataset two_column_response ! 1)"
    by (simp add: two_column_response_def)
  have b2: "is_permutation [1, 0] (length (columns two_column_response))
              \<and> list_all (\<lambda>row. length row = length (columns two_column_response))
                   (dataset two_column_response)"
    by (auto simp: is_permutation_def two_column_response_def)
  note inst = positional_integrity [OF h1 h2, where k = 1 and i = 1 and p = "[1, 0]"]
  from inst b1 have c1: "\<exists>d v. ?I ! 1 = Record d
            \<and> coerce L (type (columns two_column_response ! 1))
                 (dataset two_column_response ! 1 ! 1) = Inr v
            \<and> dict_get d (name (columns two_column_response ! 1)) = Some v"
    by blast
  from inst b2 obtain items' :: "'a row_item list" and stop' where
    c2: "parse_and_yield_query_response L (permute_response [1, 0] two_column_response) None
           = (items', stop')"
      "length items' = length ?I" "stop' = None \<longleftrightarrow> (None :: error option) = None"
      "\<forall>k<length ?I. same_fields (?I ! k) (items' ! k)"
    by blast
  from c2(4) have "0 < length ?I \<longrightarrow> same_fields (?I ! 0) (items' ! 0)"
    "1 < length ?I \<longrightarrow> same_fields (?I ! 1) (items' ! 1)"
    by blast+
  then have "same_fields (?I ! 0) (items' ! 0)" "same_fields (?I ! 1) (items' ! 1)"
    by simp_all
  with c2 have c3: "\<exists>items' stop'.
           parse_and_yield_query_response L (permute_response [1, 0] two_column_response) None
             = (items' :: 'a row_item list, stop')
           \<and> length items' = 2 \<and> stop' = None
           \<and> same_fields (Record [(''a'', PInt 1), (''b'', PStr ''x'')]) (items' ! 0)
           \<and> same_fields (Record [(''a'', PNone), (''b'', PStr ''y'')]) (items' ! 1)"
    by auto
  from h1 h2 b2 c1 c3
  show "distinct (map name (columns two_column_response))
     \<and> parse_and_yield_query_response L two_column_response None = (?I, None)
     \<and> is_permutation [1, 0] (length (columns two_column_response))
     \<and> list_all (\<lambda>row. length row = length (columns two_column_response))
          (dataset two_column_response)
     \<and> (\<exists>d v. ?I ! 1 = Record d
            \<and> coerce L (type (columns two_column_response ! 1))
                 (dataset two_column_response ! 1 ! 1) = Inr v
            \<and> dict_get d (name (columns two_column_response ! 1)) = Some v)
     \<and> (\<exists>items' stop'.
           parse_and_yield_query_response L (permute_response [1, 0] two_column_response) None
             = (items' :: 'a row_item list, stop')
           \<and> length items' = 2 \<and> stop' = None
           \<and> same_fields (Record [(''a'', PInt 1), (''b'', PStr ''x'')]) (items' ! 0)
           \<and> same_fields (Record [(''a'', PNone), (''b'', PStr ''y'')]) (items' ! 1))"
    by blast
qed

section \<open>Running \<open>convert_types\<close> twice\<close>

lemma convert_types_step:
  "convert_types P df (col # cols) =
     (case convert_column P df col of Inl e \<Rightarrow> Inl e | Inr df' \<Rightarrow> convert_types P df' cols)"
  by (simp add: convert_column_def)

lemma law_get_set:
  "frame_laws P \<Longrightarrow> setitem P df n c = Inr df' \<Longrightarrow> getitem P df' n = Inr c"
  unfolding frame_laws_def by blast

lemma law_get_other:
  "frame_laws P \<Longrightarrow> setitem P df n c = Inr df' \<Longrightarrow> m \<noteq> n \<Longrightarrow>
   getitem P df' m = getitem P df m"
  unfolding frame_laws_def by blast

lemma law_set_get:
  "frame_laws P \<Longrightarrow> getitem P df n = Inr c \<Longrightarrow> setitem P df n c = Inr df"
  unfolding frame_laws_def by blast

lemma reassign_Inr:
  "reassign P f df n = Inr df' \<Longrightarrow>
   \<exists>c c'. getitem P df n = Inr c \<and> f c = Inr c' \<and> setitem P df n c' = Inr df'"
  by (simp add: reassign_def split: sum.splits)

lemma reassign_other:
  assumes "frame_laws P" and "reassign P f df n = Inr df'" and "m \<noteq> n"
  shows "getitem P df' m = getitem P df m"
proof -
  from reassign_Inr [OF assms(2)] obtain c' where "setitem P df n c' = Inr df'"
    by blast
  from law_get_other [OF assms(1) this assms(3)] show ?thesis .
qed

lemma reassign_fixed:
  assumes "frame_laws P" and "idempotent_on_results f" and "reassign P f df n = Inr df'"
  shows "\<exists>c. getitem P df' n = Inr c \<and> f c = Inr c"
proof -
  from reassign_Inr [OF assms(3)] obtain c c' where
    f: "f c = Inr c'" and set: "setitem P df n c' = Inr df'"
    by blast
  from assms(2) f have "f c' = Inr c'"
    unfolding idempotent_on_results_def by blast
  with law_get_set [OF assms(1) set] show ?thesis by blast
qed

lemma reassign_again:
  assumes "frame_laws P" and "getitem P df n = Inr c" and "f c = Inr c"
  shows "reassign P f df n = Inr df"
  using assms(2,3) law_set_get [OF assms(1,2)] by (simp add: reassign_def)

lemma convert_column_other:
  assumes "frame_laws P" and "convert_column P df col = Inr df'" and "m \<noteq> name col"
  shows "getitem P df' m = getitem P df m"
proof -
  have "getitem P df' m = getitem P df m" if "reassign P f df (name col) = Inr df'" for f
    using reassign_other [OF assms(1) that assms(3)] .
  with assms(2) show ?thesis
    by (simp add: convert_column_def split: if_splits)
qed

lemma convert_types_other:
  assumes "frame_laws P"
  shows "convert_types P df cols = Inr df' \<Longrightarrow> m \<notin> set (map name cols) \<Longrightarrow>
         getitem P df' m = getitem P df m"
proof (induction cols arbitrary: df)
  case Nil
  then show ?case by simp
next
  case (Cons col cols)
  from Cons.prems(1) obtain df1 where step: "convert_column P df col = Inr df1"
    and rest: "convert_types P df1 cols = Inr df'"
    by (auto simp: convert_types_step simp del: convert_types.simps split: sum.splits)
  from Cons.prems(2) have "m \<noteq> name col" "m \<notin> set (map name cols)" by auto
  with Cons.IH [OF rest] convert_column_other [OF assms step] show ?case by simp
qed

lemma convert_column_settles:
  assumes laws: "frame_laws P" and idem: "library_idempotent P"
    and step: "convert_column P df col = Inr df1"
    and same: "getitem P df' (name col) = getitem P df1 (name col)"
  shows "settled P df' col"
proof -
  have *: "reassign P f df' (name col) = Inr df'"
    if "idempotent_on_results f" "reassign P f df (name col) = Inr df1" for f
  proof -
    from reassign_fixed [OF laws that] obtain c where
      "getitem P df1 (name col) = Inr c" "f c = Inr c"
      by blast
    with same show ?thesis by (simp add: reassign_again [OF laws])
  qed
  from idem have idems: "idempotent_on_results (to_datetime P)"
    "idempotent_on_results (to_numeric_integer P)"
    "idempotent_on_results (to_numeric_float P)" "idempotent_on_results (astype_str P)"
    by (simp_all add: library_idempotent_def)
  let ?ints = "set [''BOOLEAN'', ''BYTE'', ''SHORT'', ''INT'', ''LONG'']"
  let ?floats = "set [''FLOAT'', ''DOUBLE'']"
  consider
      (timestamp) "type col = ''TIMESTAMP''"
    | (integer) "type col \<noteq> ''TIMESTAMP''" "type col \<in> ?ints"
    | (float) "type col \<noteq> ''TIMESTAMP''" "type col \<notin> ?ints" "type col \<in> ?floats"
    | (string) "type col \<noteq> ''TIMESTAMP''" "type col \<notin> ?ints" "type col \<notin> ?floats"
        "type col = ''STRING''"
    | (other) "type col \<noteq> ''TIMESTAMP''" "type col \<notin> ?ints" "type col \<notin> ?floats"
        "type col \<noteq> ''STRING''"
    by blast
  then show ?thesis
  proof cases
    case timestamp
    with step have "reassign P (to_datetime P) df (name col) = Inr df1"
      by (simp add: convert_column_def)
    from * [OF idems(1) this] timestamp show ?thesis
      by (simp add: settled_def convert_column_def)
  next
    case integer
    with step have "reassign P (to_numeric_integer P) df (name col) = Inr df1"
      by (simp add: convert_column_def)
    from * [OF idems(2) this] integer show ?thesis
      by (simp add: settled_def convert_column_def)
  next
    case float
    with step have "reassign P (to_numeric_float P) df (name col) = Inr df1"
      by (simp add: convert_column_def)
    from * [OF idems(3) this] float show ?thesis
      by (simp add: settled_def convert_column_def)
  next
    case string
    with step have "reassign P (astype_str P) df (name col) = Inr df1"
      by (simp add: convert_column_def)
    from * [OF idems(4) this] string show ?thesis
      by (simp add: settled_def convert_column_def)
  next
    case other
    then show ?thesis
      by (simp add: settled_def convert_column_def)
  qed
qed

lemma convert_types_settles:
  assumes laws: "frame_laws P" and idem: "library_idempotent P"
  shows "distinct (map name cols) \<Longrightarrow> convert_types P df cols = Inr df' \<Longrightarrow>
         list_all (settled P df') cols"
proof (induction cols arbitrary: df)
  case Nil
  then show ?case by simp
next
  case (Cons col cols)
  from Cons.prems(2) obtain df1 where step: "convert_column P df col = Inr df1"
    and rest: "convert_types P df1 cols = Inr df'"
    by (auto simp: convert_types_step simp del: convert_types.simps split: sum.splits)
  from Cons.prems(1) have fresh: "name col \<notin> set (map name cols)"
    and dist: "distinct (map name cols)"
    by simp_all
  from convert_types_other [OF laws rest fresh]
  have "settled P df' col" by (rule convert_column_settles [OF laws idem step])
  with Cons.IH [OF dist rest] show ?case by simp
qed

lemma convert_types_settled:
  "list_all (settled P df) cols \<Longrightarrow> convert_types P df cols = Inr df"
proof (induction cols)
  case Nil
  show ?case by simp
next
  case (Cons col cols)
  then show ?case
    by (simp add: convert_types_step settled_def del: convert_types.simps)
qed

text \<open>
  What \<open>convert_types\<close> itself adds to the conversions it calls: if each pandas
  conversion changes nothing on its own results, frames obey the laws above and the
  column names are distinct, then a second run of \<open>convert_types\<close> returns the frame
  the first run returned. Whether pandas' conversions have that property is a fact about
  pandas.
\<close>

lemma convert_types_twice:
  assumes "frame_laws P" and "library_idempotent P" and "distinct (map name cols)"
    and "convert_types P df cols = Inr df'"
  shows "convert_types P df' cols = Inr df'"
  using convert_types_settled [OF convert_types_settles [OF assms]] .

end
